theory Spec2Isabelle
  imports Main "HOL-Library.Log_Nat" "HOL-Library.AList" "HOL-Library.Word"
begin

section \<open>JavaScript numbers\<close>

text \<open>
  A JavaScript number is an IEEE 754 double. The doubles that occur here are rationals, and
  each arithmetic operation returns the exact result rounded to the nearest double, ties
  to the even significand: \<open>fl\<close>. A double in the normal range is \<open>m * 2 ^ (e - 52)\<close> with
  \<open>2 ^ 52 \<le> m < 2 ^ 53\<close>; \<open>exponent x\<close> is the \<open>e\<close> with \<open>2 ^ e \<le> x < 2 ^ (e + 1)\<close>.
  The exponent is not bounded in the model: it agrees with the doubles on the normal range
  (magnitudes from \<open>2 ^ -1022\<close> up to \<open>2 ^ 1024\<close>), which byte counts, their quotients
  and clock readings do not leave.
\<close>

definition pow2 :: "int \<Rightarrow> rat" where
  "pow2 e = (if 0 \<le> e then 2 ^ nat e else 1 / 2 ^ nat (- e))"

definition exponent :: "rat \<Rightarrow> int" where
  "exponent x =
     (let (p, q) = quotient_of x; k = bitlen p - bitlen q
      in if pow2 k \<le> x then k else k - 1)"

definition round_half_even :: "rat \<Rightarrow> int" where
  "round_half_even r =
     (let f = \<lfloor>r\<rfloor>; d = r - of_int f
      in if d < 1 / 2 then f else if 1 / 2 < d then f + 1 else if even f then f else f + 1)"

definition fl :: "rat \<Rightarrow> rat" where
  "fl x =
     (if x = 0 then 0
      else let u = pow2 (exponent \<bar>x\<bar> - 52)
           in sgn x * of_int (round_half_even (\<bar>x\<bar> / u)) * u)"

text \<open>
  \<^verbatim>\<open>Math.round\<close> returns the integer nearest to its argument, the larger one at a tie;
  it is exact on a double.
\<close>

definition Math_round :: "rat \<Rightarrow> int" where
  "Math_round x = \<lfloor>x + 1 / 2\<rfloor>"

section \<open>file-io.ts\<close>

text \<open>
  \<^verbatim>\<open>compressionRatio\<close> (file-io.ts, lines 94 to 97). The arguments are byte counts:
  numbers that hold natural numbers. The subtraction, the division and the multiplication
  are each rounded to a double.
\<close>

definition compressionRatio :: "nat \<Rightarrow> nat \<Rightarrow> int" where
  "compressionRatio original compressed =
     (if original = 0 then 0
      else Math_round
        (fl (fl (fl (of_nat original - of_nat compressed) / of_nat original) * 100)))"

section \<open>Formats, mime types and the parameter table\<close>

text \<open>
  \<^verbatim>\<open>SupportedFormat\<close> (engine-wasm.ts) and \<^verbatim>\<open>QualityLevel\<close> (config.ts) are closed
  string unions; they become datatypes.
\<close>

datatype SupportedFormat = jpeg | png | webp | avif | jxl | heic

datatype QualityLevel = lossless | high | balanced | low

text \<open>
  \<^verbatim>\<open>String.prototype.toLowerCase\<close>, on strings given as their UTF-8 bytes: the letters
  \<open>A\<close> to \<open>Z\<close> are mapped to \<open>a\<close> to \<open>z\<close>, every other byte is kept. (The only
  non-ASCII letter whose lower case is ASCII is the Kelvin sign, which gives \<open>k\<close>; no key
  looked up below contains a \<open>k\<close>.)
\<close>

definition toLowerCase_char :: "char \<Rightarrow> char" where
  "toLowerCase_char c =
     (case map_of (zip ''ABCDEFGHIJKLMNOPQRSTUVWXYZ'' ''abcdefghijklmnopqrstuvwxyz'') c of
        Some l \<Rightarrow> l
      | None \<Rightarrow> c)"

definition toLowerCase :: "string \<Rightarrow> string" where
  "toLowerCase s = map toLowerCase_char s"

text \<open>The two tables of engine-wasm.ts, lines 12 to 31.\<close>

definition MIME_TO_FORMAT :: "(string \<times> SupportedFormat) list" where
  "MIME_TO_FORMAT =
     [(''image/jpeg'', jpeg),
      (''image/jpg'', jpeg),
      (''image/png'', png),
      (''image/webp'', webp),
      (''image/avif'', avif),
      (''image/jxl'', jxl),
      (''image/heic'', heic),
      (''image/heif'', heic)]"

fun FORMAT_TO_MIME :: "SupportedFormat \<Rightarrow> string" where
  "FORMAT_TO_MIME jpeg = ''image/jpeg''"
| "FORMAT_TO_MIME png = ''image/png''"
| "FORMAT_TO_MIME webp = ''image/webp''"
| "FORMAT_TO_MIME avif = ''image/avif''"
| "FORMAT_TO_MIME jxl = ''image/jxl''"
| "FORMAT_TO_MIME heic = ''image/heic''"

text \<open>
  \<^verbatim>\<open>MIME_TO_FORMAT[key]\<close> is a property read on a plain object. Besides the eight keys of
  the table it finds the properties every object inherits; after \<^verbatim>\<open>toLowerCase\<close> only
  two of their names can still be asked for, \<^verbatim>\<open>constructor\<close> and \<^verbatim>\<open>__proto__\<close>. What is
  read there is neither \<^verbatim>\<open>null\<close> nor \<^verbatim>\<open>undefined\<close> nor one of the six format strings:
  it is the value \<open>ProtoValue key\<close> below.
\<close>

datatype format_value = Fmt SupportedFormat | ProtoValue string

definition inherited_keys :: "string list" where
  "inherited_keys = [''constructor'', ''__proto__'']"

definition mimeToFormat :: "string \<Rightarrow> format_value option" where
  "mimeToFormat mime =
     (let key = toLowerCase mime in
      case map_of MIME_TO_FORMAT key of
        Some f \<Rightarrow> Some (Fmt f)
      | None \<Rightarrow> if key \<in> set inherited_keys then Some (ProtoValue key) else None)"

definition formatToMime :: "SupportedFormat \<Rightarrow> string" where
  "formatToMime format = FORMAT_TO_MIME format"

text \<open>
  The values held by the option objects handed to the codecs: numbers (all of them
  integers here) and booleans. An object literal is the list of its properties, in order.
\<close>

datatype js_value = Num int | Bool bool

type_synonym js_object = "(string \<times> js_value) list"

text \<open>
  \<^verbatim>\<open>LevelConfig\<close> (config.ts). The fields \<^verbatim>\<open>label\<close> and \<^verbatim>\<open>description\<close> are display
  texts that only the settings bar shows; no function of the engine reads them and they
  are left out. Optional fields are options; \<^verbatim>\<open>value\<close> is the field \<open>val\<close>.
\<close>

record LevelConfig =
  val :: "int option"
  isLossless :: "bool option"
  extra :: "js_object option"
  supported :: bool

fun COMPRESSION_CONFIG :: "SupportedFormat \<Rightarrow> QualityLevel \<Rightarrow> LevelConfig" where
  "COMPRESSION_CONFIG jpeg lossless =
     \<lparr>val = Some 90, isLossless = None, extra = None, supported = False\<rparr>"
| "COMPRESSION_CONFIG jpeg high =
     \<lparr>val = Some 90, isLossless = None, extra = None, supported = True\<rparr>"
| "COMPRESSION_CONFIG jpeg balanced =
     \<lparr>val = Some 80, isLossless = None, extra = None, supported = True\<rparr>"
| "COMPRESSION_CONFIG jpeg low =
     \<lparr>val = Some 60, isLossless = None, extra = None, supported = True\<rparr>"
| "COMPRESSION_CONFIG png lossless =
     \<lparr>val = Some 2, isLossless = Some True, extra = None, supported = True\<rparr>"
| "COMPRESSION_CONFIG png high =
     \<lparr>val = Some 2, isLossless = Some True, extra = None, supported = True\<rparr>"
| "COMPRESSION_CONFIG png balanced =
     \<lparr>val = Some 3, isLossless = Some True, extra = None, supported = True\<rparr>"
| "COMPRESSION_CONFIG png low =
     \<lparr>val = Some 4, isLossless = Some True, extra = None, supported = True\<rparr>"
| "COMPRESSION_CONFIG webp lossless =
     \<lparr>val = None, isLossless = Some True, extra = None, supported = True\<rparr>"
| "COMPRESSION_CONFIG webp high =
     \<lparr>val = Some 85, isLossless = None, extra = Some [(''method'', Num 4)], supported = True\<rparr>"
| "COMPRESSION_CONFIG webp balanced =
     \<lparr>val = Some 75, isLossless = None, extra = Some [(''method'', Num 4)], supported = True\<rparr>"
| "COMPRESSION_CONFIG webp low =
     \<lparr>val = Some 60, isLossless = None, extra = Some [(''method'', Num 4)], supported = True\<rparr>"
| "COMPRESSION_CONFIG avif lossless =
     \<lparr>val = None, isLossless = Some True, extra = None, supported = True\<rparr>"
| "COMPRESSION_CONFIG avif high =
     \<lparr>val = Some 75, isLossless = None, extra = Some [(''speed'', Num 8)], supported = True\<rparr>"
| "COMPRESSION_CONFIG avif balanced =
     \<lparr>val = Some 65, isLossless = None, extra = Some [(''speed'', Num 8)], supported = True\<rparr>"
| "COMPRESSION_CONFIG avif low =
     \<lparr>val = Some 50, isLossless = None, extra = Some [(''speed'', Num 8)], supported = True\<rparr>"
| "COMPRESSION_CONFIG jxl lossless =
     \<lparr>val = None, isLossless = Some True, extra = None, supported = True\<rparr>"
| "COMPRESSION_CONFIG jxl high =
     \<lparr>val = Some 90, isLossless = None, extra = None, supported = True\<rparr>"
| "COMPRESSION_CONFIG jxl balanced =
     \<lparr>val = Some 80, isLossless = None, extra = None, supported = True\<rparr>"
| "COMPRESSION_CONFIG jxl low =
     \<lparr>val = Some 60, isLossless = None, extra = None, supported = True\<rparr>"
| "COMPRESSION_CONFIG heic lossless =
     \<lparr>val = None, isLossless = None, extra = None, supported = False\<rparr>"
| "COMPRESSION_CONFIG heic high =
     \<lparr>val = None, isLossless = None, extra = None, supported = False\<rparr>"
| "COMPRESSION_CONFIG heic balanced =
     \<lparr>val = None, isLossless = None, extra = None, supported = False\<rparr>"
| "COMPRESSION_CONFIG heic low =
     \<lparr>val = None, isLossless = None, extra = None, supported = False\<rparr>"

section \<open>Thrown values and strings\<close>

text \<open>
  What a \<^verbatim>\<open>throw\<close> carries: an \<^verbatim>\<open>Error\<close> object, given by its name and its message, or
  any other value, given by what \<^verbatim>\<open>String\<close> makes of it.
\<close>

datatype thrown = JsError string string | JsValue string

text \<open>
  The outcome of a call or of an awaited promise: it returns a value, it throws, or it
  never comes back (\<open>Never\<close>: the promise never settles, or the worker dies inside the
  call; nothing after the call runs in the caller then). \<open>await\<close> passes the value of
  its first argument on, rethrows what it threw, and does not come back when it did not,
  as \<^verbatim>\<open>await\<close> and plain sequencing do.
\<close>

datatype 'a outcome = Returns 'a | Throws thrown | Never

definition new_Error :: "string \<Rightarrow> thrown" where
  "new_Error message = JsError ''Error'' message"

fun String_of_thrown :: "thrown \<Rightarrow> string" where
  "String_of_thrown (JsError n m) = (if n = [] then m else if m = [] then n else n @ '': '' @ m)"
| "String_of_thrown (JsValue s) = s"

definition await :: "'a outcome \<Rightarrow> ('a \<Rightarrow> 'b outcome) \<Rightarrow> 'b outcome" where
  "await r k = (case r of Throws e \<Rightarrow> Throws e | Returns v \<Rightarrow> k v | Never \<Rightarrow> Never)"

text \<open>Integers in decimal, as template literals and \<^verbatim>\<open>JSON.stringify\<close> print them.\<close>

function String_of_nat :: "nat \<Rightarrow> string" where
  "String_of_nat n =
     (if n < 10 then [''0123456789'' ! n]
      else String_of_nat (n div 10) @ [''0123456789'' ! (n mod 10)])"
  by pat_completeness auto
termination
  by (relation "measure id") auto

definition String_of_int :: "int \<Rightarrow> string" where
  "String_of_int i = (if i < 0 then ''-'' @ String_of_nat (nat (- i)) else String_of_nat (nat i))"

text \<open>
  \<^verbatim>\<open>JSON.stringify(options, null, 2)\<close> on an object of numbers and booleans whose keys need
  no escaping: one property a line, indented by two blanks.
\<close>

fun JSON_value :: "js_value \<Rightarrow> string" where
  "JSON_value (Num i) = String_of_int i"
| "JSON_value (Bool b) = (if b then ''true'' else ''false'')"

definition JSON_property :: "string \<times> js_value \<Rightarrow> string" where
  "JSON_property p = ''  '' @ [CHR 0x22] @ fst p @ [CHR 0x22] @ '': '' @ JSON_value (snd p)"

fun join :: "string \<Rightarrow> string list \<Rightarrow> string" where
  "join sep [] = []"
| "join sep [x] = x"
| "join sep (x # y # ys) = x @ sep @ join sep (y # ys)"

definition JSON_stringify :: "js_object \<Rightarrow> string" where
  "JSON_stringify obj =
     (if obj = [] then ''{}''
      else ''{'' @ [CHR 0x0A] @ join ('','' @ [CHR 0x0A]) (map JSON_property obj) @ [CHR 0x0A] @ ''}'')"

text \<open>
  Object spread, \<^verbatim>\<open>{ ...base, ...added }\<close>: a property of \<open>added\<close> replaces the one of the
  same key where it stands, a new one is added at the end.
\<close>

definition spread :: "js_object \<Rightarrow> js_object \<Rightarrow> js_object" where
  "spread base added = fold (\<lambda>p. AList.update (fst p) (snd p)) added base"

text \<open>\<^verbatim>\<open>String.prototype.includes\<close>: the second string occurs in the first.\<close>

fun startsWith :: "string \<Rightarrow> string \<Rightarrow> bool" where
  "startsWith s [] = True"
| "startsWith [] (c # cs) = False"
| "startsWith (x # xs) (c # cs) = (x = c \<and> startsWith xs cs)"

fun String_includes :: "string \<Rightarrow> string \<Rightarrow> bool" where
  "String_includes [] sub = (sub = [])"
| "String_includes (x # xs) sub = (startsWith (x # xs) sub \<or> String_includes xs sub)"

text \<open>
  The message texts of the source that are not ASCII, as their UTF-8 bytes, in the order
  of the source: compressor.ts line 40; engine-wasm.ts lines 259, 260 and 261 (the text up
  to the first \<^verbatim>\<open>${\<close> of each line) and line 287; worker.ts line 302; useCompressor.ts
  line 83.
\<close>

definition MSG_UNSUPPORTED_INPUT :: string where
  "MSG_UNSUPPORTED_INPUT =
     [CHR 0xE4, CHR 0xB8, CHR 0x8D, CHR 0xE6, CHR 0x94, CHR 0xAF, CHR 0xE6, CHR 0x8C, CHR 0x81,
      CHR 0xE7, CHR 0x9A, CHR 0x84, CHR 0xE8, CHR 0xBE, CHR 0x93, CHR 0xE5, CHR 0x85, CHR 0xA5,
      CHR 0xE6, CHR 0xA0, CHR 0xBC, CHR 0xE5, CHR 0xBC, CHR 0x8F, CHR 0x3A, CHR 0x20]"

definition MSG_JXL_OVERFLOW :: string where
  "MSG_JXL_OVERFLOW =
     [CHR 0x4A, CHR 0x58, CHR 0x4C, CHR 0x20, CHR 0xE7, CHR 0xBC, CHR 0x96, CHR 0xE7, CHR 0xA0,
      CHR 0x81, CHR 0xE5, CHR 0x86, CHR 0x85, CHR 0xE5, CHR 0xAD, CHR 0x98, CHR 0xE6, CHR 0xBA,
      CHR 0xA2, CHR 0xE5, CHR 0x87, CHR 0xBA, CHR 0xEF, CHR 0xBC, CHR 0x8C, CHR 0xE8, CHR 0xAF,
      CHR 0xB7, CHR 0xE5, CHR 0xB0, CHR 0x9D, CHR 0xE8, CHR 0xAF, CHR 0x95, CHR 0xE7, CHR 0xBC,
      CHR 0xA9, CHR 0xE5, CHR 0xB0, CHR 0x8F, CHR 0xE5, CHR 0x9B, CHR 0xBE, CHR 0xE7, CHR 0x89,
      CHR 0x87, CHR 0xE5, CHR 0xB0, CHR 0xBA, CHR 0xE5, CHR 0xAF, CHR 0xB8, CHR 0xE3, CHR 0x80,
      CHR 0x82, CHR 0x0A, CHR 0x0A]"

definition MSG_WASM_STACK :: string where
  "MSG_WASM_STACK =
     [CHR 0x5B, CHR 0x57, CHR 0x41, CHR 0x53, CHR 0x4D, CHR 0x20, CHR 0xE5, CHR 0xA0, CHR 0x86,
      CHR 0xE6, CHR 0xA0, CHR 0x88, CHR 0x5D, CHR 0x3A, CHR 0x20]"

definition MSG_ENGINE_PARAMETERS :: string where
  "MSG_ENGINE_PARAMETERS =
     [CHR 0x5B, CHR 0xE5, CHR 0xBC, CHR 0x95, CHR 0xE6, CHR 0x93, CHR 0x8E, CHR 0xE5, CHR 0xAE,
      CHR 0x9E, CHR 0xE9, CHR 0x99, CHR 0x85, CHR 0xE8, CHR 0xBF, CHR 0x90, CHR 0xE4, CHR 0xBD,
      CHR 0x9C, CHR 0xE5, CHR 0x8F, CHR 0x82, CHR 0xE6, CHR 0x95, CHR 0xB0, CHR 0x20, CHR 0x28]"

definition MSG_UNSUPPORTED_ENCODE :: string where
  "MSG_UNSUPPORTED_ENCODE =
     [CHR 0xE4, CHR 0xB8, CHR 0x8D, CHR 0xE6, CHR 0x94, CHR 0xAF, CHR 0xE6, CHR 0x8C, CHR 0x81,
      CHR 0xE7, CHR 0x9A, CHR 0x84, CHR 0xE7, CHR 0xBC, CHR 0x96, CHR 0xE7, CHR 0xA0, CHR 0x81,
      CHR 0xE6, CHR 0xA0, CHR 0xBC, CHR 0xE5, CHR 0xBC, CHR 0x8F, CHR 0x3A, CHR 0x20]"

definition MSG_OUT_OF_MEMORY :: string where
  "MSG_OUT_OF_MEMORY =
     [CHR 0xE5, CHR 0x8E, CHR 0x8B, CHR 0xE7, CHR 0xBC, CHR 0xA9, CHR 0xE5, CHR 0xA4, CHR 0xB1,
      CHR 0xE8, CHR 0xB4, CHR 0xA5, CHR 0x3A, CHR 0x20, CHR 0xE5, CHR 0x86, CHR 0x85, CHR 0xE5,
      CHR 0xAD, CHR 0x98, CHR 0xE4, CHR 0xB8, CHR 0x8D, CHR 0xE8, CHR 0xB6, CHR 0xB3, CHR 0x28,
      CHR 0xE5, CHR 0x9B, CHR 0xBE, CHR 0xE7, CHR 0x89, CHR 0x87, CHR 0xE5, CHR 0xB0, CHR 0xBA,
      CHR 0xE5, CHR 0xAF, CHR 0xB8, CHR 0xE8, CHR 0xBF, CHR 0x87, CHR 0xE5, CHR 0xA4, CHR 0xA7,
      CHR 0x29]"

definition MSG_ENGINE_CRASHED :: string where
  "MSG_ENGINE_CRASHED =
     [CHR 0xE5, CHR 0x8E, CHR 0x8B, CHR 0xE7, CHR 0xBC, CHR 0xA9, CHR 0xE5, CHR 0xBC, CHR 0x95,
      CHR 0xE6, CHR 0x93, CHR 0x8E, CHR 0xE5, CHR 0xB4, CHR 0xA9, CHR 0xE6, CHR 0xBA, CHR 0x83,
      CHR 0x28, CHR 0xE4, CHR 0xB8, CHR 0x8D, CHR 0xE6, CHR 0x94, CHR 0xAF, CHR 0xE6, CHR 0x8C,
      CHR 0x81, CHR 0xE8, CHR 0xAF, CHR 0xA5, CHR 0xE6, CHR 0xA0, CHR 0xBC, CHR 0xE5, CHR 0xBC,
      CHR 0x8F, CHR 0xE6, CHR 0x88, CHR 0x96, CHR 0xE5, CHR 0x86, CHR 0x85, CHR 0xE5, CHR 0xAD,
      CHR 0x98, CHR 0xE4, CHR 0xB8, CHR 0x8D, CHR 0xE8, CHR 0xB6, CHR 0xB3, CHR 0x29]"

text \<open>
  What a template literal prints for a format value: a format is its own name; the two
  inherited values are the function \<^verbatim>\<open>Object\<close> and the object \<^verbatim>\<open>Object.prototype\<close>.
\<close>

fun String_of_format :: "format_value \<Rightarrow> string" where
  "String_of_format (Fmt jpeg) = ''jpeg''"
| "String_of_format (Fmt png) = ''png''"
| "String_of_format (Fmt webp) = ''webp''"
| "String_of_format (Fmt avif) = ''avif''"
| "String_of_format (Fmt jxl) = ''jxl''"
| "String_of_format (Fmt heic) = ''heic''"
| "String_of_format (ProtoValue key) =
     (if key = ''constructor'' then ''function Object() { [native code] }''
      else ''[object Object]'')"

section \<open>engine-wasm.ts\<close>

text \<open>
  The data the engine passes around: a \<^verbatim>\<open>File\<close> (its name, its mime type and its
  bytes, which \<^verbatim>\<open>arrayBuffer()\<close> reads; \<^verbatim>\<open>size\<close> is their number), an \<^verbatim>\<open>ImageData\<close> and a
  \<^verbatim>\<open>Blob\<close>. A decoded HEIF image answers \<^verbatim>\<open>get_width\<close> and \<^verbatim>\<open>get_height\<close>; its
  \<^verbatim>\<open>display\<close> writes pixels into the array it is given and tells its callback whether it
  did.
\<close>

type_synonym bytes = "8 word list"

record File =
  file_name :: string
  file_type :: string
  file_bytes :: bytes

record ImageData =
  width :: nat
  height :: nat
  data :: bytes

record Blob =
  blob_bytes :: bytes
  blob_type :: string

record HeifImage =
  get_width :: nat
  get_height :: nat
  display_ok :: bool
  display_pixels :: bytes

text \<open>
  The codecs are libraries outside the repository (@jsquash, libheif-js) and the canvas is
  the browser's: they are parameters of the model. Each entry is one call of the source
  and returns what the call returns, or what it throws. \<open>import_module\<close> is the dynamic
  \<^verbatim>\<open>import()\<close> of a module by its specifier. A codec that hangs, or that takes the whole
  worker down (which is what the \<^verbatim>\<open>onerror\<close> handler of useCompressor.ts is for), has the
  outcome \<open>Never\<close>. Reading the bytes of a file is taken to succeed.
\<close>

record codecs =
  import_module :: "string \<Rightarrow> unit outcome"
  jpeg_decode :: "bytes \<Rightarrow> ImageData outcome"
  png_decode :: "bytes \<Rightarrow> ImageData outcome"
  webp_decode :: "bytes \<Rightarrow> ImageData outcome"
  avif_decode :: "bytes \<Rightarrow> ImageData option outcome"
  jxl_decode :: "bytes \<Rightarrow> ImageData outcome"
  heif_decode :: "bytes \<Rightarrow> HeifImage list outcome"
  createImageBitmap :: "File \<Rightarrow> ImageData outcome"
  getImageData :: "ImageData \<Rightarrow> ImageData outcome"
  jpeg_encode :: "ImageData \<Rightarrow> js_object \<Rightarrow> bytes outcome"
  png_encode :: "ImageData \<Rightarrow> bytes outcome"
  oxipng_optimise :: "bytes \<Rightarrow> js_object \<Rightarrow> bytes outcome"
  webp_encode :: "ImageData \<Rightarrow> js_object \<Rightarrow> bytes outcome"
  avif_encode :: "ImageData \<Rightarrow> js_object \<Rightarrow> bytes outcome"
  jxlEncoderFactory :: "unit outcome"
  jxl_module_encode :: "bytes \<Rightarrow> nat \<Rightarrow> nat \<Rightarrow> js_object \<Rightarrow> bytes option outcome"

text \<open>\<^verbatim>\<open>decodeWithCanvas\<close>, lines 115 to 121: the bitmap is drawn and read back.\<close>

definition decodeWithCanvas :: "codecs \<Rightarrow> File \<Rightarrow> ImageData outcome" where
  "decodeWithCanvas env f = await (createImageBitmap env f) (\<lambda>bitmap. getImageData env bitmap)"

text \<open>
  The HEIC branch of \<^verbatim>\<open>decodeImage\<close>, lines 78 to 108. The pixel array is allocated with
  \<open>width * height * 4\<close> zero bytes and \<^verbatim>\<open>display\<close> writes into it.
\<close>

definition decodeHeic :: "codecs \<Rightarrow> bytes \<Rightarrow> ImageData outcome" where
  "decodeHeic env buffer =
     await (import_module env ''libheif-js/wasm-bundle'') (\<lambda>_.
     await (heif_decode env buffer) (\<lambda>images.
       case images of
         [] \<Rightarrow> Throws (new_Error ''HEIF decoding failed: No images found in file'')
       | img # _ \<Rightarrow>
           (let w = get_width img; h = get_height img; n = w * h * 4
            in if \<not> display_ok img
               then Throws (new_Error ''HEIF decoding failed during pixel data extraction'')
               else Returns \<lparr>width = w, height = h,
                          data = take n (display_pixels img @ replicate n 0)\<rparr>)))"

text \<open>\<^verbatim>\<open>decodeImage\<close>, lines 47 to 112.\<close>

definition decodeImage :: "codecs \<Rightarrow> File \<Rightarrow> ImageData outcome" where
  "decodeImage env f =
     (let buffer = file_bytes f; fmt = mimeToFormat (file_type f)
      in if fmt = Some (Fmt jpeg) then
           await (import_module env ''@jsquash/jpeg'') (\<lambda>_. jpeg_decode env buffer)
         else if fmt = Some (Fmt png) then
           await (import_module env ''@jsquash/png'') (\<lambda>_. png_decode env buffer)
         else if fmt = Some (Fmt webp) then
           await (import_module env ''@jsquash/webp'') (\<lambda>_. webp_decode env buffer)
         else if fmt = Some (Fmt avif) then
           await (import_module env ''@jsquash/avif'') (\<lambda>_.
           await (avif_decode env buffer) (\<lambda>result.
             case result of
               None \<Rightarrow> Throws (new_Error ''AVIF decode failed'')
             | Some img \<Rightarrow> Returns img))
         else if fmt = Some (Fmt jxl) then
           await (import_module env ''@jsquash/jxl'') (\<lambda>_. jxl_decode env buffer)
         else if fmt = Some (Fmt heic) then decodeHeic env buffer
         else decodeWithCanvas env f)"

text \<open>
  The first three lines of \<^verbatim>\<open>encodeImage\<close>, lines 142 to 144: the entry of the table (none
  when the format is not one of its keys), and the two values read from it with their
  defaults.
\<close>

definition config_of :: "format_value \<Rightarrow> QualityLevel \<Rightarrow> LevelConfig option" where
  "config_of fmt qualityMode =
     (case fmt of Fmt f \<Rightarrow> Some (COMPRESSION_CONFIG f qualityMode) | ProtoValue _ \<Rightarrow> None)"

definition quality_of :: "LevelConfig option \<Rightarrow> int" where
  "quality_of config =
     (case config of None \<Rightarrow> 80 | Some c \<Rightarrow> (case val c of None \<Rightarrow> 80 | Some v \<Rightarrow> v))"

definition isLossless_of :: "LevelConfig option \<Rightarrow> bool" where
  "isLossless_of config =
     (case config of
        None \<Rightarrow> False
      | Some c \<Rightarrow> (case isLossless c of None \<Rightarrow> False | Some b \<Rightarrow> b))"

definition extra_of :: "LevelConfig option \<Rightarrow> js_object option" where
  "extra_of config = (case config of None \<Rightarrow> None | Some c \<Rightarrow> extra c)"

text \<open>
  The JXL branch, step 3 (lines 202 to 224): the effort from the number of pixels. The
  product of the two dimensions is a double; rounding is monotone and the three bounds
  are doubles, so the comparisons are those of the exact product.
\<close>

definition dynamicEffort :: "nat \<Rightarrow> int" where
  "dynamicEffort totalPixels =
     (if totalPixels < 250000 then 5
      else if totalPixels < 500000 then 3
      else if totalPixels < 1500000 then 2
      else 1)"

text \<open>Steps 4 and 5 (lines 229 to 243): the final quality and the options object.\<close>

definition jxl_options :: "ImageData \<Rightarrow> bool \<Rightarrow> int \<Rightarrow> js_object" where
  "jxl_options imageData lossless_flag q =
     (let totalPixels = width imageData * height imageData;
          finalQuality = (if lossless_flag then 100 else q)
      in [(''effort'', Num (dynamicEffort totalPixels)),
          (''quality'', Num finalQuality),
          (''progressive'', Bool False),
          (''epf'', Num (- 1)),
          (''lossyPalette'', Bool False),
          (''decodingSpeedTier'', Num 0),
          (''photonNoiseIso'', Num 0),
          (''lossyModular'', Bool False)])"

text \<open>
  Step 1 (lines 182 to 190): the encoder module is made once and kept in the module-level
  variable \<^verbatim>\<open>jxlModuleInstance\<close>; the flag says whether it is set.
\<close>

definition jxl_load :: "codecs \<Rightarrow> bool \<Rightarrow> unit outcome" where
  "jxl_load env jxlModuleInstance =
     (if jxlModuleInstance then Returns ()
      else await (import_module env ''@jsquash/jxl/codec/enc/jxl_enc.js'') (\<lambda>_.
           await (import_module env ''@jsquash/jxl/codec/enc/jxl_enc.wasm?url'') (\<lambda>_.
           jxlEncoderFactory env)))"

text \<open>Steps 6 and 7 (lines 248 to 277): the call, its \<^verbatim>\<open>catch\<close> and the null check.\<close>

definition jxl_encode :: "codecs \<Rightarrow> ImageData \<Rightarrow> js_object \<Rightarrow> bytes outcome" where
  "jxl_encode env imageData opts =
     (case jxl_module_encode env (data imageData) (width imageData) (height imageData) opts of
        Throws err \<Rightarrow>
          Throws (new_Error
            (MSG_JXL_OVERFLOW @ MSG_WASM_STACK @ String_of_thrown err @ [CHR 0x0A, CHR 0x0A] @
             MSG_ENGINE_PARAMETERS @ String_of_nat (width imageData) @ ''x'' @
             String_of_nat (height imageData) @ '' px)]:'' @ [CHR 0x0A] @ JSON_stringify opts))
      | Returns None \<Rightarrow> Throws (new_Error ''JXL Encode failed inside WASM (returned null)'')
      | Returns (Some resultView) \<Rightarrow> Returns resultView
      | Never \<Rightarrow> Never)"

text \<open>
  \<^verbatim>\<open>encodeImage\<close>, lines 134 to 289. It returns the encoded bytes, or what was thrown, and
  the new value of \<^verbatim>\<open>jxlModuleInstance\<close>. The \<^verbatim>\<open>default\<close> branch is taken by a format
  value that is none of the six strings.
\<close>

definition encodeImage ::
  "codecs \<Rightarrow> bool \<Rightarrow> ImageData \<Rightarrow> format_value \<Rightarrow> QualityLevel \<Rightarrow> (bytes outcome) \<times> bool"
where
  "encodeImage env jxlModuleInstance imageData fmt qualityMode =
     (let config = config_of fmt qualityMode;
          q = quality_of config;
          lossless_flag = isLossless_of config
      in case fmt of
           Fmt jpeg \<Rightarrow>
             (await (import_module env ''@jsquash/jpeg'') (\<lambda>_.
                jpeg_encode env imageData [(''quality'', Num q)]),
              jxlModuleInstance)
         | Fmt png \<Rightarrow>
             (await (import_module env ''@jsquash/oxipng'') (\<lambda>_.
              await (import_module env ''@jsquash/png'') (\<lambda>_.
              await (png_encode env imageData) (\<lambda>pngBuffer.
                oxipng_optimise env pngBuffer [(''level'', Num 2)]))),
              jxlModuleInstance)
         | Fmt webp \<Rightarrow>
             (await (import_module env ''@jsquash/webp'') (\<lambda>_.
                if lossless_flag then webp_encode env imageData [(''lossless'', Bool True)]
                else webp_encode env imageData
                  (spread [(''quality'', Num q)]
                     (case extra_of config of None \<Rightarrow> [] | Some x \<Rightarrow> x))),
              jxlModuleInstance)
         | Fmt avif \<Rightarrow>
             (await (import_module env ''@jsquash/avif'') (\<lambda>_.
                if lossless_flag then avif_encode env imageData [(''lossless'', Bool True)]
                else avif_encode env imageData
                  (spread [(''quality'', Num q)]
                     (case extra_of config of None \<Rightarrow> [(''speed'', Num 8)] | Some x \<Rightarrow> x))),
              jxlModuleInstance)
         | Fmt jxl \<Rightarrow>
             (case jxl_load env jxlModuleInstance of
                Throws e \<Rightarrow> (Throws e, jxlModuleInstance)
              | Returns _ \<Rightarrow> (jxl_encode env imageData (jxl_options imageData lossless_flag q), True)
              | Never \<Rightarrow> (Never, jxlModuleInstance))
         | Fmt heic \<Rightarrow>
             (await (import_module env ''@jsquash/jpeg'') (\<lambda>_.
                jpeg_encode env imageData
                  [(''quality'', Num (if q \<ge> 90 then 90 else if q \<ge> 80 then 80 else 60))]),
              jxlModuleInstance)
         | ProtoValue _ \<Rightarrow>
             (Throws (new_Error (MSG_UNSUPPORTED_ENCODE @ String_of_format fmt)), jxlModuleInstance))"

section \<open>compressor.ts\<close>

text \<open>
  \<^verbatim>\<open>compressFile\<close>, lines 32 to 53. The quality argument is optional and defaults to
  \<^verbatim>\<open>"balanced"\<close>; the format argument is optional. The mime type of the blob is
  \<^verbatim>\<open>formatToMime(outputFormat)\<close>; for a value that is no format the table has no entry
  and the blob gets the empty type (the encoder has thrown before in that case).
\<close>

definition compressFile ::
  "codecs \<Rightarrow> bool \<Rightarrow> File \<Rightarrow> QualityLevel option \<Rightarrow> SupportedFormat option \<Rightarrow> (Blob outcome) \<times> bool"
where
  "compressFile env jxlModuleInstance f quality_arg format_arg =
     (let q = (case quality_arg of None \<Rightarrow> balanced | Some l \<Rightarrow> l)
      in case mimeToFormat (file_type f) of
           None \<Rightarrow> (Throws (new_Error (MSG_UNSUPPORTED_INPUT @ file_type f)), jxlModuleInstance)
         | Some inputFormat \<Rightarrow>
             (let outputFormat = (case format_arg of None \<Rightarrow> inputFormat | Some t \<Rightarrow> Fmt t)
              in case decodeImage env f of
                   Throws e \<Rightarrow> (Throws e, jxlModuleInstance)
                 | Never \<Rightarrow> (Never, jxlModuleInstance)
                 | Returns imageData \<Rightarrow>
                     (case encodeImage env jxlModuleInstance imageData outputFormat q of
                        (Throws e, inst) \<Rightarrow> (Throws e, inst)
                      | (Never, inst) \<Rightarrow> (Never, inst)
                      | (Returns buffer, inst) \<Rightarrow>
                          (Returns \<lparr>blob_bytes = buffer,
                                 blob_type =
                                   (case outputFormat of
                                      Fmt t \<Rightarrow> formatToMime t
                                    | ProtoValue _ \<Rightarrow> [])\<rparr>,
                           inst))))"

text \<open>\<^verbatim>\<open>SUPPORTED_INPUT_FORMATS\<close> and \<^verbatim>\<open>isSupportedFile\<close>, lines 56 to 61.\<close>

definition SUPPORTED_INPUT_FORMATS :: "string list" where
  "SUPPORTED_INPUT_FORMATS = map fst MIME_TO_FORMAT"

definition isSupportedFile :: "File \<Rightarrow> bool" where
  "isSupportedFile f = (toLowerCase (file_type f) \<in> set SUPPORTED_INPUT_FORMATS)"

section \<open>worker.ts\<close>

text \<open>
  The request and the two shapes of the response are objects; a property that a shape
  does not have is \<open>None\<close>. \<^verbatim>\<open>self.onmessage\<close> returns the list of the messages it
  posts, in order, and the new value of \<^verbatim>\<open>jxlModuleInstance\<close>. The two readings of
  \<^verbatim>\<open>performance.now()\<close> are arguments; the second is only taken when \<^verbatim>\<open>compressFile\<close> has
  returned. Both \<^verbatim>\<open>postMessage\<close> calls stand behind \<^verbatim>\<open>await compressFile(...)\<close>: while
  that promise has not settled, neither runs.
\<close>

record CompressOptions =
  quality :: "QualityLevel option"
  format :: "SupportedFormat option"

record request =
  req_id :: string
  req_file :: File
  req_options :: CompressOptions

record response =
  res_id :: string
  res_success :: bool
  res_blob :: "Blob option"
  res_time :: "rat option"
  res_error :: "string option"

definition error_message :: "thrown \<Rightarrow> string" where
  "error_message err = (case err of JsError _ m \<Rightarrow> m | JsValue s \<Rightarrow> s)"

definition onmessage ::
  "codecs \<Rightarrow> bool \<Rightarrow> rat \<Rightarrow> rat \<Rightarrow> request \<Rightarrow> response list \<times> bool"
where
  "onmessage env jxlModuleInstance now_start now_end e =
     (case compressFile env jxlModuleInstance (req_file e)
             (quality (req_options e)) (format (req_options e)) of
        (Returns b, inst) \<Rightarrow>
          ([\<lparr>res_id = req_id e, res_success = True, res_blob = Some b,
              res_time = Some (fl (now_end - now_start)), res_error = None\<rparr>],
           inst)
      | (Throws err, inst) \<Rightarrow>
          (let errorMsg = error_message err;
               errorMsg' =
                 (if String_includes errorMsg ''unreachable'' \<or>
                     String_includes errorMsg ''memory'' \<or>
                     String_includes errorMsg ''OOM''
                  then MSG_OUT_OF_MEMORY
                  else errorMsg)
           in ([\<lparr>res_id = req_id e, res_success = False, res_blob = None,
                  res_time = None, res_error = Some errorMsg'\<rparr>],
               inst))
      | (Never, inst) \<Rightarrow> ([], inst))"

section \<open>useCompressor.ts\<close>

text \<open>
  The file list of the hook and the handler of the worker's \<^verbatim>\<open>error\<close> event, lines 76
  to 92: it maps the list, ends the worker and starts a new one, whose module-level
  variable is unset again.
\<close>

datatype FileStatus = status_pending | status_compressing | status_done | status_error

record CompressorSettings =
  settings_quality :: QualityLevel
  settings_format :: "SupportedFormat option"

record CompressedFile =
  id_cf :: string
  file_cf :: File
  name :: string
  originalSize :: nat
  compressedSize :: "nat option"
  ratio :: "int option"
  time :: "rat option"
  status :: FileStatus
  error :: "string option"
  originalUrl :: string
  compressedUrl :: "string option"
  compressedBlob :: "Blob option"
  outputFormat :: SupportedFormat
  appliedSettings :: "CompressorSettings option"

record hook_state =
  files :: "CompressedFile list"
  worker_jxlModuleInstance :: bool

definition onerror :: "hook_state \<Rightarrow> hook_state" where
  "onerror s =
     \<lparr>files =
        map (\<lambda>f. if status f = status_compressing
                 then f\<lparr>status := status_error, error := Some MSG_ENGINE_CRASHED\<rparr>
                 else f)
          (files s),
      worker_jxlModuleInstance = False\<rparr>"

section \<open>The PNG encode of the specification\<close>

text \<open>
  The specification has the PNG encode run the optimiser "at the resolved level": the
  level that the table gives for the quality level (2, 2, 3, 4). This is that encode,
  written from the specification's words to be compared with the PNG branch of
  \<^verbatim>\<open>encodeImage\<close>.
\<close>

definition encodePng_at_resolved_level ::
  "codecs \<Rightarrow> ImageData \<Rightarrow> QualityLevel \<Rightarrow> bytes outcome"
where
  "encodePng_at_resolved_level env imageData l =
     await (import_module env ''@jsquash/oxipng'') (\<lambda>_.
     await (import_module env ''@jsquash/png'') (\<lambda>_.
     await (png_encode env imageData) (\<lambda>pngBuffer.
       oxipng_optimise env pngBuffer
         [(''level'', Num (quality_of (Some (COMPRESSION_CONFIG png l))))])))"

section \<open>The compression ratio of the specification\<close>

text \<open>
  The specification gives the ratio as \<^verbatim>\<open>round(((original - compressed) / original) * 100)\<close>
  and as 0 when the original size is 0. This is that formula over the rationals, with the
  rounding of \<^verbatim>\<open>Math.round\<close>, written from the specification's words to be compared
  with \<^verbatim>\<open>compressionRatio\<close>.
\<close>

definition exact_percent :: "nat \<Rightarrow> nat \<Rightarrow> rat" where
  "exact_percent original compressed =
     (of_nat original - of_nat compressed) / of_nat original * 100"


section \<open>A sample environment\<close>

text \<open>
  Codecs for the concrete evaluations below. Every import succeeds, every decoder returns
  the same image of one red pixel, and every encoder returns a letter followed by the
  values of the options it was given, so that the options can be read off the output.
\<close>

definition sample_image :: ImageData where
  "sample_image = \<lparr>width = 1, height = 1, data = [255, 0, 0, 255]\<rparr>"

fun option_byte :: "js_value \<Rightarrow> 8 word" where
  "option_byte (Num i) = of_int i"
| "option_byte (Bool b) = (if b then 1 else 0)"

definition option_bytes :: "js_object \<Rightarrow> bytes" where
  "option_bytes obj = map (\<lambda>p. option_byte (snd p)) obj"

definition sample_codecs :: codecs where
  "sample_codecs =
     \<lparr>import_module = (\<lambda>_. Returns ()),
      jpeg_decode = (\<lambda>_. Returns sample_image),
      png_decode = (\<lambda>_. Returns sample_image),
      webp_decode = (\<lambda>_. Returns sample_image),
      avif_decode = (\<lambda>_. Returns (Some sample_image)),
      jxl_decode = (\<lambda>_. Returns sample_image),
      heif_decode = (\<lambda>_. Returns [\<lparr>get_width = 1, get_height = 1, display_ok = True,
                                   display_pixels = [255, 0, 0, 255]\<rparr>]),
      createImageBitmap = (\<lambda>_. Returns sample_image),
      getImageData = (\<lambda>bitmap. Returns bitmap),
      jpeg_encode = (\<lambda>_ opts. Returns (74 # option_bytes opts)),
      png_encode = (\<lambda>_. Returns [80]),
      oxipng_optimise = (\<lambda>buffer opts. Returns (buffer @ option_bytes opts)),
      webp_encode = (\<lambda>_ opts. Returns (87 # option_bytes opts)),
      avif_encode = (\<lambda>_ opts. Returns (65 # option_bytes opts)),
      jxlEncoderFactory = Returns (),
      jxl_module_encode = (\<lambda>_ _ _ opts. Returns (Some (88 # option_bytes opts)))\<rparr>"

text \<open>The same codecs, but for a PNG decoder that never comes back.\<close>

definition stalled_codecs :: codecs where
  "stalled_codecs = sample_codecs\<lparr>png_decode := (\<lambda>_. Never)\<rparr>"

definition sample_file :: "string \<Rightarrow> File" where
  "sample_file mime = \<lparr>file_name = ''photo'', file_type = mime, file_bytes = [1, 2, 3]\<rparr>"

definition sample_entry :: "string \<Rightarrow> FileStatus \<Rightarrow> string option \<Rightarrow> CompressedFile" where
  "sample_entry ident st err =
     \<lparr>id_cf = ident, file_cf = sample_file ''image/png'', name = ''photo'', originalSize = 3,
      compressedSize = None, ratio = None, time = None, status = st, error = err,
      originalUrl = ''blob:original'', compressedUrl = None, compressedBlob = None,
      outputFormat = png,
      appliedSettings = Some \<lparr>settings_quality = balanced, settings_format = None\<rparr>\<rparr>"

definition sample_request :: "string \<Rightarrow> request" where
  "sample_request mime =
     \<lparr>req_id = ''file-1-0'', req_file = sample_file mime,
      req_options = \<lparr>quality = Some balanced, format = None\<rparr>\<rparr>"

section \<open>The compression ratio\<close>

text \<open>
  \<open>exponent\<close> is the binary exponent: \<open>2 ^ e \<le> x < 2 ^ (e + 1)\<close>. So the quotient that
  \<open>fl\<close> rounds to an integer is at least \<open>2 ^ 52\<close>, and rounding to a double keeps the
  sign.
\<close>

lemma pow2_powi: "pow2 e = 2 powi e"
  by (simp add: pow2_def power_int_def field_simps)

lemma pow2_pos: "0 < pow2 e"
  by (simp add: pow2_def)

lemma pow2_diff: "pow2 (a - b) = pow2 a / pow2 b"
  by (simp add: pow2_powi power_int_diff)

lemma pow2_nonneg_eq: "0 \<le> e \<Longrightarrow> pow2 e = 2 ^ nat e"
  by (simp add: pow2_def)

lemma exponent_le:
  assumes "0 < x"
  shows "pow2 (exponent x) \<le> x"
proof -
  obtain p q where pq: "quotient_of x = (p, q)" by (cases "quotient_of x")
  then have q: "0 < q" and x: "x = of_int p / of_int q"
    using quotient_of_denom_pos quotient_of_div by blast+
  with assms have p: "0 < p" by (simp add: zero_less_divide_iff)
  define k where "k = bitlen p - bitlen q"
  have e: "exponent x = (if pow2 k \<le> x then k else k - 1)"
    by (simp add: exponent_def pq k_def Let_def)
  show ?thesis
  proof (cases "pow2 k \<le> x")
    case True
    with e show ?thesis by simp
  next
    case False
    have bp: "0 \<le> bitlen p - 1" using p bitlen_bounds [of p] bitlen_nonneg [of p]
      by (smt (verit) bitlen_eq_zero_iff)
    have "(2::int) ^ nat (bitlen p - 1) \<le> p" using bitlen_bounds [OF p] by simp
    then have "(of_int ((2::int) ^ nat (bitlen p - 1)) :: rat) \<le> of_int p"
      by (simp only: of_int_le_iff)
    then have lo: "pow2 (bitlen p - 1) \<le> of_int p"
      using bp by (simp add: pow2_nonneg_eq)
    have "q < 2 ^ nat (bitlen q)" using bitlen_bounds [OF q] by simp
    then have "(of_int q :: rat) < of_int (2 ^ nat (bitlen q))"
      by (simp only: of_int_less_iff)
    then have hi: "of_int q < pow2 (bitlen q)"
      using bitlen_nonneg [of q] by (simp add: pow2_nonneg_eq)
    have "k - 1 = (bitlen p - 1) - bitlen q" by (simp add: k_def)
    then have "pow2 (k - 1) = pow2 (bitlen p - 1) / pow2 (bitlen q)"
      by (simp only: pow2_diff)
    also have "\<dots> \<le> of_int p / pow2 (bitlen q)"
      using lo pow2_pos [of "bitlen q"] by (simp add: divide_right_mono)
    also have "\<dots> \<le> of_int p / of_int q"
      using hi p q by (simp add: frac_le)
    finally have "pow2 (k - 1) \<le> x" by (simp add: x)
    with False e show ?thesis by simp
  qed
qed


lemma exponent_less:
  assumes "0 < x"
  shows "x < pow2 (exponent x + 1)"
proof -
  obtain p q where pq: "quotient_of x = (p, q)" by (cases "quotient_of x")
  then have q: "0 < q" and x: "x = of_int p / of_int q"
    using quotient_of_denom_pos quotient_of_div by blast+
  with assms have p: "0 < p" by (simp add: zero_less_divide_iff)
  define k where "k = bitlen p - bitlen q"
  have e: "exponent x = (if pow2 k \<le> x then k else k - 1)"
    by (simp add: exponent_def pq k_def Let_def)
  show ?thesis
  proof (cases "pow2 k \<le> x")
    case False
    with e show ?thesis by simp
  next
    case True
    have bq: "0 \<le> bitlen q - 1" using q bitlen_bounds [of q] bitlen_nonneg [of q]
      by (smt (verit) bitlen_eq_zero_iff)
    have "(2::int) ^ nat (bitlen q - 1) \<le> q" using bitlen_bounds [OF q] by simp
    then have "(of_int ((2::int) ^ nat (bitlen q - 1)) :: rat) \<le> of_int q"
      by (simp only: of_int_le_iff)
    then have lo: "pow2 (bitlen q - 1) \<le> of_int q"
      using bq by (simp add: pow2_nonneg_eq)
    have "p < 2 ^ nat (bitlen p)" using bitlen_bounds [OF p] by simp
    then have "(of_int p :: rat) < of_int (2 ^ nat (bitlen p))"
      by (simp only: of_int_less_iff)
    then have hi: "of_int p < pow2 (bitlen p)"
      using bitlen_nonneg [of p] by (simp add: pow2_nonneg_eq)
    have "x < pow2 (bitlen p) / of_int q"
      using hi q by (simp add: x divide_strict_right_mono)
    also have "\<dots> \<le> pow2 (bitlen p) / pow2 (bitlen q - 1)"
      using lo pow2_pos [of "bitlen q - 1"] pow2_pos [of "bitlen p"]
      by (simp add: frac_le)
    also have "\<dots> = pow2 (bitlen p - (bitlen q - 1))"
      by (simp only: pow2_diff)
    also have "bitlen p - (bitlen q - 1) = k + 1" by (simp add: k_def)
    finally show ?thesis using True e by simp
  qed
qed

lemma round_half_even_ge: "of_int n \<le> r \<Longrightarrow> n \<le> round_half_even r"
proof -
  assume "of_int n \<le> r"
  then have "n \<le> \<lfloor>r\<rfloor>" by (simp add: le_floor_iff)
  then show ?thesis by (simp add: round_half_even_def Let_def)
qed

lemma fl_pos:
  assumes "0 < x"
  shows "0 < fl x"
proof -
  define u where "u = pow2 (exponent \<bar>x\<bar> - 52)"
  have u: "0 < u" by (simp add: u_def pow2_pos)
  have "u = pow2 (exponent x) / pow2 52" using assms by (simp add: u_def pow2_diff)
  also have "\<dots> \<le> x / pow2 52"
    using exponent_le [OF assms] pow2_pos [of 52] by (simp add: divide_right_mono)
  also have "\<dots> \<le> x" using assms by (simp add: pow2_def field_simps)
  finally have "u \<le> x" .
  with u have "of_int 1 \<le> \<bar>x\<bar> / u" using assms by (simp add: field_simps)
  then have "1 \<le> round_half_even (\<bar>x\<bar> / u)" by (rule round_half_even_ge)
  then have "0 < (of_int (round_half_even (\<bar>x\<bar> / u)) :: rat)" by simp
  with u assms show ?thesis by (simp add: fl_def u_def Let_def)
qed



lemma fl_zero: "fl 0 = 0"
  by (simp add: fl_def)

lemma fl_nonneg: "0 \<le> x \<Longrightarrow> 0 \<le> fl x"
  using fl_pos [of x] fl_zero by (cases "x = 0") (auto simp: less_le)

















text \<open>
  The disagreement is not a matter of how ties are rounded: for 199 bytes out of 200 the
  exact percentage is 0.5, the function returns 1, and rounding ties to even gives 0.
\<close>

lemma compressionRatio_tie_to_even:
  "compressionRatio 200 199 = 1 \<and> round_half_even (exact_percent 200 199) = 0"
proof -
  have "compressionRatio 200 199 = 1"
    by (simp add: compressionRatio_def, code_simp)
  moreover have "round_half_even (exact_percent 200 199) = 0"
    by (simp add: exact_percent_def, code_simp)
  ultimately show ?thesis by simp
qed

section \<open>Properties of the tables\<close>

text \<open>
  Claim C8. For each of the six formats and four quality levels the table holds an entry,
  and its \<^verbatim>\<open>supported\<close> flag is true except exactly at (jpeg, lossless) and at the four
  entries of heic, where it is false.
\<close>

theorem COMPRESSION_CONFIG_supported:
  "supported (COMPRESSION_CONFIG f l) = (\<not> (f = jpeg \<and> l = lossless) \<and> f \<noteq> heic)"
  by (cases f; cases l; simp)

text \<open>
  Claim C10. For each of the six formats, the output mime type of the format is mapped
  back to that format by \<^verbatim>\<open>mimeToFormat\<close>.
\<close>

theorem mimeToFormat_formatToMime:
  "mimeToFormat (formatToMime f) = Some (Fmt f)"
  by (cases f;
      simp add: mimeToFormat_def formatToMime_def MIME_TO_FORMAT_def toLowerCase_def
        toLowerCase_char_def)

section \<open>The parameters the encoders receive\<close>

text \<open>
  The sample environment, call by call.
\<close>

lemma sample_codecs_simps:
  "import_module sample_codecs m = Returns ()"
  "jpeg_encode sample_codecs i opts = Returns (74 # option_bytes opts)"
  "png_encode sample_codecs i = Returns [80]"
  "oxipng_optimise sample_codecs buffer opts = Returns (buffer @ option_bytes opts)"
  "createImageBitmap sample_codecs f = Returns sample_image"
  "getImageData sample_codecs i = Returns i"
  "jxlEncoderFactory sample_codecs = Returns ()"
  "jxl_module_encode sample_codecs d w h opts = Returns (Some (88 # option_bytes opts))"
  by (simp_all add: sample_codecs_def)

text \<open>
  A target format of heic. The four heic entries of the table have no numeric value, so
  the resolved quality is the default 80 at every level; the branch encodes a JPEG at
  quality 80, the member of 60, 80, 90 nearest to it.
\<close>

lemma encodeImage_heic:
  "encodeImage env inst imageData (Fmt heic) l =
     (await (import_module env ''@jsquash/jpeg'') (\<lambda>_.
        jpeg_encode env imageData [(''quality'', Num 80)]), inst)"
  by (cases l; simp add: encodeImage_def config_of_def quality_of_def)

text \<open>
  \<^verbatim>\<open>compressFile\<close> labels the blob with \<^verbatim>\<open>formatToMime(outputFormat)\<close>: whenever it
  returns a blob for the target format heic, the mime type is \<^verbatim>\<open>image/heic\<close>.
\<close>

lemma compressFile_heic_blob_type:
  assumes "compressFile env inst f q (Some heic) = (Returns b, inst')"
  shows "blob_type b = ''image/heic''"
  using assms
  by (auto simp add: compressFile_def formatToMime_def Let_def
      split: option.splits outcome.splits prod.splits)

text \<open>
  Claim C1 says that for a target format of heic a JPEG is encoded at the quality among
  60, 80 and 90 nearest to the resolved value, and that the blob returned has the mime
  type \<^verbatim>\<open>image/jpeg\<close>. The code at two requests, a HEIC file kept in its format and a PNG
  file with the target heic: the bytes are those of the JPEG encoder at quality 80 (the
  sample encoder writes the letter J, 74, and the quality), and the mime type of the blob
  is \<^verbatim>\<open>image/heic\<close>.
\<close>

theorem compressFile_heic_sample:
  "compressFile sample_codecs False (sample_file ''image/heic'') (Some balanced) None =
     (Returns \<lparr>blob_bytes = [74, 80], blob_type = ''image/heic''\<rparr>, False) \<and>
   compressFile sample_codecs False (sample_file ''image/png'') (Some high) (Some heic) =
     (Returns \<lparr>blob_bytes = [74, 80], blob_type = ''image/heic''\<rparr>, False)"
  by code_simp

text \<open>
  The PNG branch: the image is encoded as PNG and the result is optimised at level 2,
  whatever the quality level.
\<close>

lemma encodeImage_png:
  "encodeImage env inst imageData (Fmt png) l =
     (await (import_module env ''@jsquash/oxipng'') (\<lambda>_.
      await (import_module env ''@jsquash/png'') (\<lambda>_.
      await (png_encode env imageData) (\<lambda>pngBuffer.
        oxipng_optimise env pngBuffer [(''level'', Num 2)]))),
      inst)"
  by (simp add: encodeImage_def Let_def)

text \<open>
  Claim C2 as stated, that the optimiser runs at the level resolved from the quality
  level, fails at the level low: the table resolves 4 and the optimiser is given 2 (the
  sample optimiser appends its level to the PNG bytes).
\<close>

theorem png_level_counterexample:
  "fst (encodeImage sample_codecs False sample_image (Fmt png) low) = Returns [80, 2] \<and>
   encodePng_at_resolved_level sample_codecs sample_image low = Returns [80, 4] \<and>
   fst (encodeImage sample_codecs False sample_image (Fmt png) low) \<noteq>
     encodePng_at_resolved_level sample_codecs sample_image low"
  by (simp add: encodeImage_png encodePng_at_resolved_level_def sample_codecs_simps await_def
      option_bytes_def quality_of_def)

text \<open>
  Claim C2, amended. For every PNG encode, at any quality level, the pixel buffer is
  encoded as PNG and then passed through the optimiser at level 2. That is the level
  resolved from the quality levels lossless and high; for balanced and low the levels 3
  and 4 of the table are not used.
\<close>

theorem png_level_fixed:
  "encodeImage env inst imageData (Fmt png) l =
     (await (import_module env ''@jsquash/oxipng'') (\<lambda>_.
      await (import_module env ''@jsquash/png'') (\<lambda>_.
      await (png_encode env imageData) (\<lambda>pngBuffer.
        oxipng_optimise env pngBuffer [(''level'', Num 2)]))),
      inst) \<and>
   (l = lossless \<or> l = high \<longrightarrow>
      fst (encodeImage env inst imageData (Fmt png) l) =
        encodePng_at_resolved_level env imageData l)"
  by (auto simp add: encodeImage_png encodePng_at_resolved_level_def quality_of_def)

text \<open>
  The theorem at the levels balanced and high on the sample image.
\<close>

theorem png_level_fixed_witness:
  "encodeImage sample_codecs False sample_image (Fmt png) balanced = (Returns [80, 2], False) \<and>
   encodeImage sample_codecs False sample_image (Fmt png) high = (Returns [80, 2], False) \<and>
   encodePng_at_resolved_level sample_codecs sample_image high = Returns [80, 2]"
  using png_level_fixed [of sample_codecs False sample_image balanced]
    png_level_fixed [of sample_codecs False sample_image high]
  by (simp add: encodePng_at_resolved_level_def quality_of_def sample_codecs_simps await_def
      option_bytes_def)

text \<open>
  The JXL branch: once the encoder module is there, the encoder is called with the options
  of \<open>jxl_options\<close>.
\<close>

lemma encodeImage_jxl:
  "encodeImage env inst imageData (Fmt jxl) l =
     (case jxl_load env inst of
        Throws e \<Rightarrow> (Throws e, inst)
      | Returns _ \<Rightarrow>
          (jxl_encode env imageData
             (jxl_options imageData (isLossless_of (config_of (Fmt jxl) l))
                (quality_of (config_of (Fmt jxl) l))),
           True)
      | Never \<Rightarrow> (Never, inst))"
  by (simp add: encodeImage_def Let_def)




text \<open>
  Claim C4. In a JXL encode, once the encoder module is there, \<^verbatim>\<open>module.encode\<close> is called
  on the pixels with the options written out below, and what \<^verbatim>\<open>encodeImage\<close> returns is
  made from the outcome of that call. The quality among the options is 100 when the entry
  of the table has \<^verbatim>\<open>isLossless\<close> true, and the resolved numeric value otherwise (the
  \<^verbatim>\<open>value\<close> of the entry, 80 when it has none): 100, 90, 80 and 60 at the four levels.
\<close>

theorem jxl_final_quality:
  "(let finalQuality =
          (if isLossless (COMPRESSION_CONFIG jxl l) = Some True then 100
           else case val (COMPRESSION_CONFIG jxl l) of Some v \<Rightarrow> v | None \<Rightarrow> 80);
        opts =
          [(''effort'', Num (dynamicEffort (width imageData * height imageData))),
           (''quality'', Num finalQuality),
           (''progressive'', Bool False),
           (''epf'', Num (- 1)),
           (''lossyPalette'', Bool False),
           (''decodingSpeedTier'', Num 0),
           (''photonNoiseIso'', Num 0),
           (''lossyModular'', Bool False)]
    in finalQuality = (case l of lossless \<Rightarrow> 100 | high \<Rightarrow> 90 | balanced \<Rightarrow> 80 | low \<Rightarrow> 60) \<and>
       (jxl_load env inst = Returns () \<longrightarrow>
          encodeImage env inst imageData (Fmt jxl) l =
            (case jxl_module_encode env (data imageData) (width imageData) (height imageData)
                    opts of
               Returns (Some resultView) \<Rightarrow> Returns resultView
             | Returns None \<Rightarrow>
                 Throws (new_Error ''JXL Encode failed inside WASM (returned null)'')
             | Throws err \<Rightarrow>
                 Throws (new_Error
                   (MSG_JXL_OVERFLOW @ MSG_WASM_STACK @ String_of_thrown err @
                    [CHR 0x0A, CHR 0x0A] @ MSG_ENGINE_PARAMETERS @
                    String_of_nat (width imageData) @ ''x'' @
                    String_of_nat (height imageData) @ '' px)]:'' @ [CHR 0x0A] @
                    JSON_stringify opts))
             | Never \<Rightarrow> Never,
             True)))"
proof -
  have tab: "(if isLossless (COMPRESSION_CONFIG jxl l) = Some True then 100
              else case val (COMPRESSION_CONFIG jxl l) of Some v \<Rightarrow> v | None \<Rightarrow> 80) =
      (case l of lossless \<Rightarrow> 100 | high \<Rightarrow> 90 | balanced \<Rightarrow> 80 | low \<Rightarrow> (60::int))"
    by (cases l) simp_all
  have opts: "jxl_options imageData (isLossless_of (config_of (Fmt jxl) l))
        (quality_of (config_of (Fmt jxl) l)) =
      [(''effort'', Num (dynamicEffort (width imageData * height imageData))),
       (''quality'', Num (case l of lossless \<Rightarrow> 100 | high \<Rightarrow> 90 | balanced \<Rightarrow> 80 | low \<Rightarrow> 60)),
       (''progressive'', Bool False),
       (''epf'', Num (- 1)),
       (''lossyPalette'', Bool False),
       (''decodingSpeedTier'', Num 0),
       (''photonNoiseIso'', Num 0),
       (''lossyModular'', Bool False)]"
    by (cases l)
       (simp_all add: jxl_options_def isLossless_of_def quality_of_def config_of_def)
  show ?thesis
    unfolding Let_def tab
    by (simp add: encodeImage_jxl opts jxl_encode_def
        split: outcome.splits option.splits)
qed

text \<open>
  The theorem at the levels lossless and high on the sample image, whose encoder writes
  the letter X, 88, and the values of the options it receives: the third byte is the
  quality.
\<close>

theorem jxl_final_quality_witness:
  "jxl_load sample_codecs False = Returns () \<and>
   encodeImage sample_codecs False sample_image (Fmt jxl) lossless =
     (Returns [88, 5, 100, 0, 255, 0, 0, 0, 0], True) \<and>
   encodeImage sample_codecs False sample_image (Fmt jxl) high =
     (Returns [88, 5, 90, 0, 255, 0, 0, 0, 0], True)"
proof -
  have load: "jxl_load sample_codecs False = Returns ()"
    by (simp add: jxl_load_def sample_codecs_simps await_def)
  have dims: "width sample_image = 1" "height sample_image = 1"
    by (simp_all add: sample_image_def)
  have effort: "dynamicEffort (Suc 0) = 5"
    by (simp add: dynamicEffort_def)
  from load
    jxl_final_quality [of lossless sample_image sample_codecs False]
    jxl_final_quality [of high sample_image sample_codecs False]
  show ?thesis
    by (simp add: Let_def sample_codecs_simps option_bytes_def dims effort)
qed

section \<open>Input formats that the table does not cover\<close>

text \<open>
  \<^verbatim>\<open>mimeToFormat\<close> returns null exactly for a type that, in lower case, is neither a
  key of the table nor a name that the table object inherits.
\<close>

lemma mimeToFormat_None_iff:
  "mimeToFormat mime = None \<longleftrightarrow>
     toLowerCase mime \<notin> set SUPPORTED_INPUT_FORMATS \<and> toLowerCase mime \<notin> set inherited_keys"
  using map_of_eq_None_iff [of MIME_TO_FORMAT "toLowerCase mime"]
  by (cases "map_of MIME_TO_FORMAT (toLowerCase mime)")
     (simp_all add: mimeToFormat_def SUPPORTED_INPUT_FORMATS_def Let_def)

text \<open>
  Claim C5 as stated, that an input whose mime type the table does not cover is decoded
  through the canvas before the pipeline fails, fails at a file of type
  \<^verbatim>\<open>image/bmp\<close>: the canvas path decodes the file and the JPEG encoder encodes the result,
  yet \<^verbatim>\<open>compressFile\<close> throws the unsupported-input error.
\<close>

theorem canvas_fallback_counterexample:
  "mimeToFormat ''image/bmp'' = None \<and>
   decodeWithCanvas sample_codecs (sample_file ''image/bmp'') = Returns sample_image \<and>
   fst (encodeImage sample_codecs False sample_image (Fmt jpeg) balanced) = Returns [74, 80] \<and>
   compressFile sample_codecs False (sample_file ''image/bmp'') (Some balanced) (Some jpeg) =
     (Throws (new_Error (MSG_UNSUPPORTED_INPUT @ ''image/bmp'')), False)"
  by code_simp

text \<open>
  Claim C5, amended. For a file whose type, in lower case, is neither a key of the table
  nor a name the table object inherits, \<^verbatim>\<open>mimeToFormat\<close> returns null and
  \<^verbatim>\<open>compressFile\<close> throws the unsupported-input error, whatever the codecs and the
  canvas would do: nothing is decoded. \<^verbatim>\<open>decodeImage\<close>, called on its own, falls back to
  the canvas path for every type that is none of the six formats.
\<close>

theorem compressFile_unsupported_input:
  "(toLowerCase (file_type f) \<notin> set SUPPORTED_INPUT_FORMATS \<and>
    toLowerCase (file_type f) \<notin> set inherited_keys \<longrightarrow>
      mimeToFormat (file_type f) = None \<and>
      compressFile env inst f q t =
        (Throws (new_Error (MSG_UNSUPPORTED_INPUT @ file_type f)), inst)) \<and>
   ((\<forall>x. mimeToFormat (file_type f) \<noteq> Some (Fmt x)) \<longrightarrow>
      decodeImage env f = decodeWithCanvas env f)"
proof -
  have refused: "compressFile env inst f q t =
      (Throws (new_Error (MSG_UNSUPPORTED_INPUT @ file_type f)), inst)"
    if "mimeToFormat (file_type f) = None"
    using that by (simp add: compressFile_def)
  have canvas: "decodeImage env f = decodeWithCanvas env f"
    if "\<forall>x. mimeToFormat (file_type f) \<noteq> Some (Fmt x)"
    using that by (simp add: decodeImage_def Let_def)
  from refused canvas show ?thesis
    by (simp add: mimeToFormat_None_iff)
qed

text \<open>
  The theorem at a file of type \<^verbatim>\<open>image/bmp\<close>.
\<close>

theorem compressFile_unsupported_input_witness:
  "toLowerCase (file_type (sample_file ''image/bmp'')) \<notin> set SUPPORTED_INPUT_FORMATS \<and>
   toLowerCase (file_type (sample_file ''image/bmp'')) \<notin> set inherited_keys \<and>
   compressFile sample_codecs False (sample_file ''image/bmp'') None None =
     (Throws (new_Error (MSG_UNSUPPORTED_INPUT @ ''image/bmp'')), False) \<and>
   decodeImage sample_codecs (sample_file ''image/bmp'') =
     decodeWithCanvas sample_codecs (sample_file ''image/bmp'')"
proof -
  have uncovered:
    "toLowerCase (file_type (sample_file ''image/bmp'')) \<notin> set SUPPORTED_INPUT_FORMATS"
    "toLowerCase (file_type (sample_file ''image/bmp'')) \<notin> set inherited_keys"
    by code_simp+
  have ft: "file_type (sample_file ''image/bmp'') = ''image/bmp''"
    by (simp add: sample_file_def)
  from uncovered
    compressFile_unsupported_input [of "sample_file ''image/bmp''" sample_codecs False None None]
  show ?thesis
    by (simp add: ft)
qed

section \<open>The worker and the hook\<close>

text \<open>
  Claim C6 as stated, that every request gets exactly one response and never zero, fails
  for a request whose \<^verbatim>\<open>compressFile\<close> never comes back, here a PNG file with a decoder
  that hangs: the handler posts nothing.
\<close>

theorem onmessage_stalled_counterexample:
  "fst (compressFile stalled_codecs False (sample_file ''image/png'') (Some balanced) None) =
     Never \<and>
   fst (onmessage stalled_codecs False 10 25 (sample_request ''image/png'')) = []"
  by code_simp

text \<open>
  Claim C6, amended. For every request whose \<^verbatim>\<open>compressFile\<close> call settles (returns a
  blob or throws), the worker posts exactly one response. It carries the id of the
  request and is either a success response (\<^verbatim>\<open>success\<close> true, with the blob and the
  elapsed time, no error) or a failure response (\<^verbatim>\<open>success\<close> false, with an error
  message, no blob and no time); it is the first exactly when \<^verbatim>\<open>compressFile\<close> returned
  a blob. While the call has not settled the worker posts nothing.
\<close>

theorem onmessage_one_response:
  "(fst (compressFile env inst (req_file e) (quality (req_options e))
           (format (req_options e))) \<noteq> Never \<longrightarrow>
      (\<exists>r. fst (onmessage env inst now_start now_end e) = [r] \<and>
         res_id r = req_id e \<and>
         ((res_success r \<and> res_blob r \<noteq> None \<and> res_time r \<noteq> None \<and> res_error r = None) \<or>
          (\<not> res_success r \<and> res_blob r = None \<and> res_time r = None \<and> res_error r \<noteq> None)) \<and>
         (case fst (compressFile env inst (req_file e) (quality (req_options e))
                      (format (req_options e))) of
            Returns b \<Rightarrow>
              res_success r \<and> res_blob r = Some b \<and>
              res_time r = Some (fl (now_end - now_start))
          | Throws err \<Rightarrow> \<not> res_success r
          | Never \<Rightarrow> False))) \<and>
   (fst (compressFile env inst (req_file e) (quality (req_options e))
           (format (req_options e))) = Never \<longrightarrow>
      fst (onmessage env inst now_start now_end e) = [])"
proof (cases "compressFile env inst (req_file e) (quality (req_options e))
    (format (req_options e))")
  case (Pair result inst')
  then show ?thesis
    by (cases result) (simp_all add: onmessage_def Let_def)
qed

text \<open>
  The theorem at a PNG file, which is compressed, and at a BMP file, which is refused; in
  both cases \<^verbatim>\<open>compressFile\<close> settles.
\<close>

theorem onmessage_one_response_witness:
  "fst (compressFile sample_codecs False (sample_file ''image/png'') (Some balanced) None)
     \<noteq> Never \<and>
   fst (onmessage sample_codecs False 10 25 (sample_request ''image/png'')) =
     [\<lparr>res_id = ''file-1-0'', res_success = True,
       res_blob = Some \<lparr>blob_bytes = [80, 2], blob_type = ''image/png''\<rparr>,
       res_time = Some 15, res_error = None\<rparr>] \<and>
   fst (compressFile sample_codecs False (sample_file ''image/bmp'') (Some balanced) None)
     \<noteq> Never \<and>
   fst (onmessage sample_codecs False 10 25 (sample_request ''image/bmp'')) =
     [\<lparr>res_id = ''file-1-0'', res_success = False, res_blob = None, res_time = None,
       res_error = Some (MSG_UNSUPPORTED_INPUT @ ''image/bmp'')\<rparr>]"
proof -
  have settles:
    "fst (compressFile sample_codecs False (sample_file ''image/png'') (Some balanced) None)
       \<noteq> Never"
    "fst (compressFile sample_codecs False (sample_file ''image/bmp'') (Some balanced) None)
       \<noteq> Never"
    by code_simp+
  have ok: "fst (onmessage sample_codecs False 10 25 (sample_request ''image/png'')) =
     [\<lparr>res_id = ''file-1-0'', res_success = True,
       res_blob = Some \<lparr>blob_bytes = [80, 2], blob_type = ''image/png''\<rparr>,
       res_time = Some 15, res_error = None\<rparr>]"
    by code_simp
  have failed: "fst (onmessage sample_codecs False 10 25 (sample_request ''image/bmp'')) =
     [\<lparr>res_id = ''file-1-0'', res_success = False, res_blob = None, res_time = None,
       res_error = Some (MSG_UNSUPPORTED_INPUT @ ''image/bmp'')\<rparr>]"
    by code_simp
  from settles ok failed
    onmessage_one_response [of sample_codecs False "sample_request ''image/png''" 10 25]
    onmessage_one_response [of sample_codecs False "sample_request ''image/bmp''" 10 25]
  show ?thesis by simp
qed

text \<open>
  Claim C7. The handler of a fatal worker error maps the file list: a file whose status
  is compressing gets the status error and the engine-crashed message, all its other
  fields kept, and a file in any other status is unchanged.
\<close>

theorem onerror_files:
  "length (files (onerror s)) = length (files s) \<and>
   (\<forall>i < length (files s).
      files (onerror s) ! i =
        (if status (files s ! i) = status_compressing
         then (files s ! i)\<lparr>status := status_error, error := Some MSG_ENGINE_CRASHED\<rparr>
         else files s ! i))"
  by (simp add: onerror_def)

text \<open>
  The theorem at a list of four files, one in each status.
\<close>

theorem onerror_files_witness:
  "files (onerror
     \<lparr>files = [sample_entry ''a'' status_pending None,
               sample_entry ''b'' status_compressing None,
               sample_entry ''c'' status_done None,
               sample_entry ''d'' status_error (Some ''AVIF decode failed'')],
      worker_jxlModuleInstance = True\<rparr>) =
   [sample_entry ''a'' status_pending None,
    sample_entry ''b'' status_error (Some MSG_ENGINE_CRASHED),
    sample_entry ''c'' status_done None,
    sample_entry ''d'' status_error (Some ''AVIF decode failed'')]"
proof -
  let ?s = "\<lparr>files = [sample_entry ''a'' status_pending None,
               sample_entry ''b'' status_compressing None,
               sample_entry ''c'' status_done None,
               sample_entry ''d'' status_error (Some ''AVIF decode failed'')],
      worker_jxlModuleInstance = True\<rparr>"
  have st: "status (sample_entry n st err) = st" for n st err
    by (simp add: sample_entry_def)
  have upd: "(sample_entry n st err)\<lparr>status := st', error := err'\<rparr> = sample_entry n st' err'"
    for n st err st' err'
    by (simp add: sample_entry_def)
  have len: "length (files (onerror ?s)) = 4"
    using onerror_files [of ?s] by simp
  have nth: "files (onerror ?s) ! i =
      [sample_entry ''a'' status_pending None,
       sample_entry ''b'' status_error (Some MSG_ENGINE_CRASHED),
       sample_entry ''c'' status_done None,
       sample_entry ''d'' status_error (Some ''AVIF decode failed'')] ! i" if "i < 4" for i
  proof -
    from that have "i = 0 \<or> i = 1 \<or> i = 2 \<or> i = 3" by auto
    then show ?thesis
      using onerror_files [of ?s] by (auto simp add: st upd)
  qed
  show ?thesis
    by (rule nth_equalityI) (simp_all add: len nth)
qed

end
